theory Spec2Isabelle
  imports Complex_Main
begin

section \<open>Python text primitives\<close>

text \<open>
  Python \<open>str\<close> values are modelled as HOL strings whose characters stand for the code
  points U+0000 .. U+00FF.  The predicates below are Python's own classification of these
  code points.
\<close>

definition py_isspace :: "char \<Rightarrow> bool" where
  \<comment> \<open>\<open>str.isspace\<close> on one code point: TAB..CR, FS..US, SPACE, NEL, NBSP.\<close>
  "py_isspace c =
     (let n = (of_char c :: nat)
      in (9 \<le> n \<and> n \<le> 13) \<or> (28 \<le> n \<and> n \<le> 32) \<or> n = 133 \<or> n = 160)"

definition is_ascii_digit :: "char \<Rightarrow> bool" where
  "is_ascii_digit c = (let n = (of_char c :: nat) in 48 \<le> n \<and> n \<le> 57)"

definition py_isdigit_char :: "char \<Rightarrow> bool" where
  \<comment> \<open>\<open>str.isdigit\<close> on one code point: the ASCII digits and the superscripts 2, 3, 1.\<close>
  "py_isdigit_char c =
     (let n = (of_char c :: nat) in (48 \<le> n \<and> n \<le> 57) \<or> n = 178 \<or> n = 179 \<or> n = 185)"

definition py_isdigit :: "string \<Rightarrow> bool" where
  \<comment> \<open>\<open>str.isdigit()\<close>: non-empty and every character a digit.\<close>
  "py_isdigit s = (if s = [] then False else list_all py_isdigit_char s)"

definition py_lower_char :: "char \<Rightarrow> char" where
  \<comment> \<open>\<open>str.lower\<close> on one code point: A-Z and the Latin-1 capitals (all but U+00D7) move up
      by 32, which sets bit 5 of the code point.\<close>
  "py_lower_char c =
     (let n = (of_char c :: nat)
      in if (65 \<le> n \<and> n \<le> 90) \<or> (192 \<le> n \<and> n \<le> 222 \<and> n \<noteq> 215)
         then (case c of Char b0 b1 b2 b3 b4 b5 b6 b7 \<Rightarrow> Char b0 b1 b2 b3 b4 True b6 b7)
         else c)"

definition py_lower :: "string \<Rightarrow> string" where
  "py_lower s = map py_lower_char s"

definition py_lstrip :: "string \<Rightarrow> string" where
  "py_lstrip s = dropWhile py_isspace s"

definition py_rstrip :: "string \<Rightarrow> string" where
  "py_rstrip s = rev (dropWhile py_isspace (rev s))"

definition py_strip :: "string \<Rightarrow> string" where
  \<comment> \<open>\<open>str.strip()\<close>: whitespace removed at both ends.\<close>
  "py_strip s = py_rstrip (py_lstrip s)"

fun split_ws :: "string \<Rightarrow> string \<Rightarrow> string list" where
  \<comment> \<open>\<open>str.split()\<close> with the token read so far (reversed) as first argument.\<close>
  "split_ws cur [] = (if cur = [] then [] else [rev cur])"
| "split_ws cur (c # cs) =
     (if py_isspace c
      then (if cur = [] then split_ws [] cs else rev cur # split_ws [] cs)
      else split_ws (c # cur) cs)"

definition py_split :: "string \<Rightarrow> string list" where
  \<comment> \<open>\<open>str.split()\<close>: the maximal runs of non-whitespace characters.\<close>
  "py_split s = split_ws [] s"

fun py_join :: "string \<Rightarrow> string list \<Rightarrow> string" where
  \<comment> \<open>\<open>sep.join(parts)\<close>.\<close>
  "py_join sep [] = []"
| "py_join sep [x] = x"
| "py_join sep (x # y # ys) = x @ sep @ py_join sep (y # ys)"

definition py_startswith :: "string \<Rightarrow> string \<Rightarrow> bool" where
  \<comment> \<open>\<open>s.startswith(p)\<close>.\<close>
  "py_startswith s p = (take (length p) s = p)"

definition digit_char :: "nat \<Rightarrow> char" where
  "digit_char d = char_of (48 + d)"

definition digit_val :: "char \<Rightarrow> nat" where
  "digit_val c = of_char c - 48"

fun str_nat :: "nat \<Rightarrow> string" where
  \<comment> \<open>decimal rendering of a natural number, as \<open>str\<close> gives it\<close>
  "str_nat n = (if n < 10 then [digit_char n] else str_nat (n div 10) @ [digit_char (n mod 10)])"

declare str_nat.simps [simp del]

definition str_int :: "int \<Rightarrow> string" where
  \<comment> \<open>\<open>str(i)\<close> for a Python \<open>int\<close>.\<close>
  "str_int i = (if i < 0 then CHR ''-'' # str_nat (nat (- i)) else str_nat (nat i))"

definition nat_of_digits :: "string \<Rightarrow> nat" where
  \<comment> \<open>value of a string of ASCII digits, most significant first\<close>
  "nat_of_digits s = foldl (\<lambda>acc c. 10 * acc + digit_val c) 0 s"

definition py_int :: "string \<Rightarrow> int option" where
  \<comment> \<open>\<open>int(text)\<close> on a text that passed \<open>isdigit()\<close>: the superscript digits are no
      decimal digits and make \<open>int\<close> raise ValueError.  The interpreter's configurable cap on
      the number of digits, another ValueError, is left out.\<close>
  "py_int s = (if s \<noteq> [] \<and> list_all is_ascii_digit s then Some (int (nat_of_digits s)) else None)"

section \<open>Frame registry\<close>

datatype error =
    UnknownFrameIndex int          \<comment> \<open>ValueError: Unknown reference frame index\<close>
  | EmptyFrame                     \<comment> \<open>ValueError: Reference frame cannot be empty\<close>
  | InvalidIntLiteral string       \<comment> \<open>ValueError raised by \<open>int(text)\<close>\<close>
  | UnrecognisedFrame string       \<comment> \<open>ValueError: Unrecognised reference frame\<close>
  | BlankLabel                     \<comment> \<open>IndexError of \<open>label.split()[0]\<close> on a blank label\<close>
  | BinaryNotFound                 \<comment> \<open>FileNotFoundError: HTDP binary not found\<close>
  | BinaryNotExecutable            \<comment> \<open>PermissionError: binary is not executable\<close>
  | ExecutionFailed string string  \<comment> \<open>RuntimeError carrying stdout and stderr\<close>
  | OutputFileNotCreated string    \<comment> \<open>FileNotFoundError: HTDP output file was not created\<close>
  | EngineTimeout int              \<comment> \<open>subprocess.TimeoutExpired, with the timeout\<close>

datatype exception_class =
  ValueError | IndexError | FileNotFoundError | PermissionError | RuntimeError | TimeoutExpired

definition class_of :: "error \<Rightarrow> exception_class" where
  \<comment> \<open>the Python class of the exception raised\<close>
  "class_of err =
     (case err of
        UnknownFrameIndex v \<Rightarrow> ValueError
      | EmptyFrame \<Rightarrow> ValueError
      | InvalidIntLiteral t \<Rightarrow> ValueError
      | UnrecognisedFrame t \<Rightarrow> ValueError
      | BlankLabel \<Rightarrow> IndexError
      | BinaryNotFound \<Rightarrow> FileNotFoundError
      | BinaryNotExecutable \<Rightarrow> PermissionError
      | ExecutionFailed out err \<Rightarrow> RuntimeError
      | OutputFileNotCreated path \<Rightarrow> FileNotFoundError
      | EngineTimeout t \<Rightarrow> TimeoutExpired)"

definition FRAME_MENU :: "(int \<times> string) list" where
  "FRAME_MENU =
    [(1, ''NAD_83(2011/CORS96/2007)''),
     (2, ''NAD_83(PA11/PACP00)''),
     (3, ''NAD_83(MA11/MARP00)''),
     (4, ''WGS72''),
     (5, ''WGS84 original (Transit)''),
     (6, ''WGS84(G730)''),
     (7, ''WGS84(G873)''),
     (8, ''WGS84(G1150)''),
     (9, ''WGS84(G1674)''),
     (10, ''WGS84(G1762)''),
     (11, ''WGS84(G2139)''),
     (12, ''WGS84(G2296)''),
     (13, ''ITRF88''),
     (14, ''ITRF89''),
     (15, ''ITRF90''),
     (16, ''ITRF91''),
     (17, ''ITRF92''),
     (18, ''ITRF93''),
     (19, ''ITRF94''),
     (20, ''ITRF96''),
     (21, ''ITRF97''),
     (22, ''ITRF2000 or IGS00/IGb00''),
     (23, ''ITRF2005 or IGS05''),
     (24, ''ITRF2008 or IGS08/IGb08''),
     (25, ''ITRF2014 or IGS14/IGb14''),
     (26, ''ITRF2020 or IGS20/IGb20'')]"

definition is_label_char :: "char \<Rightarrow> bool" where
  \<comment> \<open>the class \<open>[a-z0-9]\<close>\<close>
  "is_label_char c =
     (let n = (of_char c :: nat) in (97 \<le> n \<and> n \<le> 122) \<or> (48 \<le> n \<and> n \<le> 57))"

definition normalise_label :: "string \<Rightarrow> string" where
  \<comment> \<open>\<open>re.sub(r"[^a-z0-9]", "", value.lower())\<close>\<close>
  "normalise_label v = filter is_label_char (py_lower v)"

type_synonym aliases = "(string \<times> int) list"

definition dict_set :: "string \<Rightarrow> int \<Rightarrow> aliases \<Rightarrow> aliases" where
  \<comment> \<open>\<open>d[k] = v\<close>: replaces the value of a present key, appends an absent one\<close>
  "dict_set k v d = (if k \<in> set (map fst d) then map (\<lambda>(k', v'). if k' = k then (k', v) else (k', v')) d
                     else d @ [(k, v)])"

definition dict_setdefault :: "string \<Rightarrow> int \<Rightarrow> aliases \<Rightarrow> aliases" where
  \<comment> \<open>\<open>d.setdefault(k, v)\<close>: a present key keeps its value\<close>
  "dict_setdefault k v d = (if k \<in> set (map fst d) then d else d @ [(k, v)])"

definition register_frame :: "int \<times> string \<Rightarrow> aliases \<Rightarrow> error + aliases" where
  \<comment> \<open>the body of the module-level loop, for one catalog entry\<close>
  "register_frame entry d =
     (let idx = fst entry; label = snd entry;
          d1 = dict_set (normalise_label label) idx d
      in case py_split label of
           [] \<Rightarrow> Inl BlankLabel
         | short_label # _ \<Rightarrow>
             let d2 = dict_setdefault (normalise_label short_label) idx d1
             in if CHR ''('' \<in> set label
                then Inr (dict_setdefault
                            (normalise_label (takeWhile (\<lambda>c. c \<noteq> CHR ''('') label)) idx d2)
                else Inr d2)"

fun register_all :: "(int \<times> string) list \<Rightarrow> aliases \<Rightarrow> error + aliases" where
  \<comment> \<open>\<open>for idx, label in FRAME_MENU.items(): ...\<close>\<close>
  "register_all [] d = Inr d"
| "register_all (e # es) d =
     (case register_frame e d of Inl err \<Rightarrow> Inl err | Inr d' \<Rightarrow> register_all es d')"

definition frame_aliases :: aliases where
  \<comment> \<open>the module-level \<open>_frame_aliases\<close> once the loop has run\<close>
  "frame_aliases = (case register_all FRAME_MENU [] of Inr d \<Rightarrow> d | Inl _ \<Rightarrow> [])"

datatype frame_id = IntId int | TextId string

definition resolve_index :: "int \<Rightarrow> error + int" where
  \<comment> \<open>the \<open>isinstance(value, int)\<close> branch of \<open>resolve_frame\<close>\<close>
  "resolve_index v = (if v \<in> set (map fst FRAME_MENU) then Inr v else Inl (UnknownFrameIndex v))"

fun resolve_frame :: "frame_id \<Rightarrow> error + int" where
  "resolve_frame (IntId v) = resolve_index v"
| "resolve_frame (TextId v) =
     (let text = py_strip v
      in if text = [] then Inl EmptyFrame
         else if py_isdigit text
         then (case py_int text of
                 None \<Rightarrow> Inl (InvalidIntLiteral text)
               | Some n \<Rightarrow> resolve_index n)
         else (let key = normalise_label text
               in case map_of frame_aliases key of
                    Some i \<Rightarrow> Inr i
                  | None \<Rightarrow> Inl (UnrecognisedFrame v)))"

subsection \<open>The registrations of the catalog, entry by entry\<close>

definition alias_keys :: "int \<times> string \<Rightarrow> string list" where
  \<comment> \<open>the keys that the loop body registers for one catalog entry, in the order of its three
      statements: full label, leading word, text before the first parenthesis\<close>
  "alias_keys entry =
     (let label = snd entry
      in normalise_label label
         # (case py_split label of [] \<Rightarrow> [] | short_label # _ \<Rightarrow> [normalise_label short_label])
         @ (if CHR ''('' \<in> set label
            then [normalise_label (takeWhile (\<lambda>c. c \<noteq> CHR ''('') label)] else []))"

definition first_registration :: "(int \<times> string) list \<Rightarrow> string \<Rightarrow> int option" where
  \<comment> \<open>the index of the first entry, in catalog order, that registers the key\<close>
  "first_registration cat k = map_option fst (find (\<lambda>e. k \<in> set (alias_keys e)) cat)"

fun fresh_labels :: "(int \<times> string) list \<Rightarrow> string list \<Rightarrow> bool" where
  \<comment> \<open>no entry's full label normalises to a key registered before it (the one registration
      done by plain assignment), and every label has a leading word\<close>
  "fresh_labels [] seen = True"
| "fresh_labels (e # es) seen =
     (if normalise_label (snd e) \<in> set seen then False
      else if py_split (snd e) = [] then False
      else fresh_labels es (seen @ alias_keys e))"

section \<open>Python floats\<close>

text \<open>
  A Python \<open>float\<close> is an IEEE 754 binary64 value.  A finite value is kept as sign,
  significand and exponent: \<open>Finite s m e\<close> stands for \<open>(-1)\<^sup>s * m * 2\<^sup>e\<close>, where a normal number
  has \<open>2\<^sup>5\<^sup>2 \<le> m < 2\<^sup>5\<^sup>3\<close> and \<open>-1074 \<le> e \<le> 971\<close>, and zero and the subnormal numbers have
  \<open>m < 2\<^sup>5\<^sup>2\<close> and \<open>e = -1074\<close>.  The sign is a field of its own, so \<open>-0.0\<close> is a value.
\<close>

datatype pyfloat = Finite bool nat int | Infinity bool | NaN

definition fneg :: "pyfloat \<Rightarrow> pyfloat" where
  \<comment> \<open>unary minus: flips the sign bit\<close>
  "fneg x = (case x of Finite s m e \<Rightarrow> Finite (\<not> s) m e | Infinity s \<Rightarrow> Infinity (\<not> s) | NaN \<Rightarrow> NaN)"

definition pow2 :: "int \<Rightarrow> rat" where
  "pow2 e = (if 0 \<le> e then 2 ^ nat e else 1 / 2 ^ nat (- e))"

definition float_value :: "pyfloat \<Rightarrow> rat option" where
  \<comment> \<open>the number a finite float stands for\<close>
  "float_value x =
     (case x of Finite s m e \<Rightarrow> Some ((if s then - 1 else 1) * of_nat m * pow2 e)
      | Infinity s \<Rightarrow> None | NaN \<Rightarrow> None)"

fun bitlen :: "nat \<Rightarrow> nat" where
  \<comment> \<open>number of binary digits\<close>
  "bitlen n = (if n = 0 then 0 else Suc (bitlen (n div 2)))"

declare bitlen.simps [simp del]

definition round_half_even :: "nat \<Rightarrow> nat \<Rightarrow> nat" where
  \<comment> \<open>\<open>p / q\<close> rounded to the nearest integer, a tie to the even one\<close>
  "round_half_even p q =
     (let d = p div q; r = p mod q
      in if 2 * r < q then d else if q < 2 * r then d + 1 else if even d then d else d + 1)"

definition ratio_exponent :: "nat \<Rightarrow> nat \<Rightarrow> int" where
  \<comment> \<open>the integer \<open>k\<close> with \<open>2\<^sup>k \<le> a / b < 2\<^sup>k\<^sup>+\<^sup>1\<close>, for positive \<open>a\<close> and \<open>b\<close>\<close>
  "ratio_exponent a b =
     (let k = int (bitlen a) - int (bitlen b)
      in if b * 2 ^ nat k \<le> a * 2 ^ nat (- k) then k else k - 1)"

definition double_of_ratio :: "bool \<Rightarrow> nat \<Rightarrow> nat \<Rightarrow> pyfloat" where
  \<comment> \<open>the binary64 value nearest to \<open>a / b\<close> (ties to even) with sign \<open>s\<close>; infinity beyond the
      largest finite value\<close>
  "double_of_ratio s a b =
     (if a = 0 then Finite s 0 (- 1074)
      else let e = max (ratio_exponent a b - 52) (- 1074);
               m = round_half_even (a * 2 ^ nat (- e)) (b * 2 ^ nat e);
               m' = (if m = 2 ^ 53 then 2 ^ 52 else m);
               e' = (if m = 2 ^ 53 then e + 1 else e)
           in if 971 < e' then Infinity s else Finite s m' e')"

definition double_of_decimal :: "bool \<Rightarrow> nat \<Rightarrow> int \<Rightarrow> pyfloat" where
  \<comment> \<open>the binary64 value nearest to \<open>d * 10\<^sup>x\<close>\<close>
  "double_of_decimal s d x =
     (if 0 \<le> x then double_of_ratio s (d * 10 ^ nat x) 1 else double_of_ratio s d (10 ^ nat (- x)))"

subsection \<open>\<open>float(text)\<close>\<close>

fun drop_underscores :: "char \<Rightarrow> string \<Rightarrow> string option" where
  \<comment> \<open>an underscore is allowed between two digits only; the first argument is the character
      before\<close>
  "drop_underscores prev [] = (if prev = CHR ''_'' then None else Some [])"
| "drop_underscores prev (c # cs) =
     (if c = CHR ''_''
      then (if is_ascii_digit prev then drop_underscores c cs else None)
      else if prev = CHR ''_'' \<and> \<not> is_ascii_digit c then None
      else map_option ((#) c) (drop_underscores c cs))"

definition float_isspace :: "char \<Rightarrow> bool" where
  \<comment> \<open>what \<open>float\<close> strips at both ends: TAB..CR and SPACE, and the two spaces beyond ASCII,
      which it first turns into SPACE\<close>
  "float_isspace c =
     (let n = (of_char c :: nat) in (9 \<le> n \<and> n \<le> 13) \<or> n = 32 \<or> n = 133 \<or> n = 160)"

definition float_strip :: "string \<Rightarrow> string" where
  "float_strip s = rev (dropWhile float_isspace (rev (dropWhile float_isspace s)))"

definition ascii_lower :: "char \<Rightarrow> char" where
  "ascii_lower c =
     (let n = (of_char c :: nat)
      in if 65 \<le> n \<and> n \<le> 90
         then (case c of Char b0 b1 b2 b3 b4 b5 b6 b7 \<Rightarrow> Char b0 b1 b2 b3 b4 True b6 b7)
         else c)"

definition parse_sign :: "string \<Rightarrow> bool \<times> string" where
  "parse_sign s =
     (case s of [] \<Rightarrow> (False, [])
      | c # r \<Rightarrow> if c = CHR ''-'' then (True, r) else if c = CHR ''+'' then (False, r) else (False, s))"

definition parse_exponent :: "string \<Rightarrow> int option" where
  \<comment> \<open>the text after the digits: nothing, or \<open>e\<close>, an optional sign and at least one digit\<close>
  "parse_exponent s =
     (case s of [] \<Rightarrow> Some 0
      | c # r \<Rightarrow>
          if c = CHR ''e'' \<or> c = CHR ''E''
          then (let neg = fst (parse_sign r); ds = snd (parse_sign r)
                in if ds = [] then None
                   else if list_all is_ascii_digit ds
                   then Some (if neg then - int (nat_of_digits ds) else int (nat_of_digits ds))
                   else None)
          else None)"

definition parse_decimal :: "string \<Rightarrow> (nat \<times> int) option" where
  \<comment> \<open>digits, an optional point and more digits (one digit at least), an optional exponent:
      the result \<open>(d, x)\<close> stands for \<open>d * 10\<^sup>x\<close>\<close>
  "parse_decimal s =
     (let ip = takeWhile is_ascii_digit s;
          r1 = dropWhile is_ascii_digit s;
          point = (case r1 of [] \<Rightarrow> False | c # r \<Rightarrow> c = CHR ''.'');
          fp = (if point then takeWhile is_ascii_digit (tl r1) else []);
          r2 = (if point then dropWhile is_ascii_digit (tl r1) else r1)
      in if ip = [] \<and> fp = [] then None
         else (case parse_exponent r2 of
                 None \<Rightarrow> None
               | Some x \<Rightarrow> Some (nat_of_digits (ip @ fp), x - int (length fp))))"

definition py_float :: "string \<Rightarrow> pyfloat option" where
  \<comment> \<open>\<open>float(text)\<close>; \<open>None\<close> stands for ValueError\<close>
  "py_float text =
     (case drop_underscores (CHR 0x00) text of
        None \<Rightarrow> None
      | Some t \<Rightarrow>
          (let neg = fst (parse_sign (float_strip t));
               body = snd (parse_sign (float_strip t));
               w = map ascii_lower body
           in if w = ''inf'' \<or> w = ''infinity'' then Some (Infinity neg)
              else if w = ''nan'' then Some NaN
              else (case parse_decimal body of
                      None \<Rightarrow> None
                    | Some dx \<Rightarrow> Some (double_of_decimal neg (fst dx) (snd dx)))))"

subsection \<open>Formatting\<close>

definition zero_pad :: "nat \<Rightarrow> string \<Rightarrow> string" where
  "zero_pad n s = replicate (n - length s) (CHR ''0'') @ s"

definition sign_str :: "bool \<Rightarrow> string" where
  "sign_str s = (if s then ''-'' else [])"

definition scaled_round :: "nat \<Rightarrow> nat \<Rightarrow> int \<Rightarrow> nat" where
  \<comment> \<open>\<open>m * 2\<^sup>e * 10\<^sup>n\<close> rounded to an integer, a tie to the even one\<close>
  "scaled_round n m e = round_half_even (m * 10 ^ n * 2 ^ nat e) (2 ^ nat (- e))"

definition fixed_digits :: "nat \<Rightarrow> nat \<Rightarrow> string" where
  \<comment> \<open>\<open>N / 10\<^sup>n\<close> in fixed notation with \<open>n\<close> decimals\<close>
  "fixed_digits n N =
     str_nat (N div 10 ^ n) @ (if n = 0 then [] else CHR ''.'' # zero_pad n (str_nat (N mod 10 ^ n)))"

definition format_f :: "nat \<Rightarrow> pyfloat \<Rightarrow> string" where
  \<comment> \<open>the format specification \<open>.nf\<close>\<close>
  "format_f n x =
     (case x of
        Finite s m e \<Rightarrow> sign_str s @ fixed_digits n (scaled_round n m e)
      | Infinity s \<Rightarrow> sign_str s @ ''inf''
      | NaN \<Rightarrow> ''nan'')"

fun declen :: "nat \<Rightarrow> nat" where
  \<comment> \<open>number of decimal digits\<close>
  "declen n = (if n = 0 then 0 else Suc (declen (n div 10)))"

declare declen.simps [simp del]

definition decimal_exponent :: "nat \<Rightarrow> nat \<Rightarrow> int" where
  \<comment> \<open>the integer \<open>k\<close> with \<open>10\<^sup>k \<le> a / b < 10\<^sup>k\<^sup>+\<^sup>1\<close>, for positive \<open>a\<close> and \<open>b\<close>\<close>
  "decimal_exponent a b =
     (let k = int (declen a) - int (declen b)
      in if b * 10 ^ nat k \<le> a * 10 ^ nat (- k) then k else k - 1)"

definition nearest_digits :: "nat \<Rightarrow> nat \<Rightarrow> int \<Rightarrow> int \<Rightarrow> nat \<times> int" where
  \<comment> \<open>the decimal \<open>d * 10\<^sup>x\<close> of \<open>n\<close> digits nearest to \<open>m * 2\<^sup>e\<close>, whose leading digit has weight
      \<open>10\<^sup>k\<close>\<close>
  "nearest_digits n m e k =
     (let x = k + 1 - int n;
          a = m * 2 ^ nat e * 10 ^ nat (- x);
          b = 2 ^ nat (- e) * 10 ^ nat x;
          lo = a div b;
          r = a mod b
      in (if 2 * r < b then lo else if b < 2 * r then lo + 1 else if even lo then lo else lo + 1, x))"

definition reads_back :: "nat \<Rightarrow> int \<Rightarrow> nat \<Rightarrow> int \<Rightarrow> bool" where
  \<comment> \<open>the decimal \<open>d * 10\<^sup>x\<close> is read as the float \<open>m * 2\<^sup>e\<close>\<close>
  "reads_back m e d x = (double_of_decimal False d x = Finite False m e)"

definition digits_found :: "nat \<Rightarrow> nat \<Rightarrow> int \<Rightarrow> int \<Rightarrow> (nat \<times> int) option" where
  \<comment> \<open>a decimal of \<open>n\<close> digits that reads back as \<open>m * 2\<^sup>e\<close>, the nearest one where both
      neighbours do\<close>
  "digits_found n m e k =
     (let x = k + 1 - int n;
          lo = (m * 2 ^ nat e * 10 ^ nat (- x)) div (2 ^ nat (- e) * 10 ^ nat x)
      in if reads_back m e lo x
         then (if reads_back m e (lo + 1) x then Some (nearest_digits n m e k) else Some (lo, x))
         else if reads_back m e (lo + 1) x then Some (lo + 1, x)
         else None)"

fun shortest_digits :: "nat \<Rightarrow> nat \<Rightarrow> nat \<Rightarrow> int \<Rightarrow> int \<Rightarrow> nat \<times> int" where
  \<comment> \<open>the shortest decimal of at least \<open>n\<close> digits that reads back as the float \<open>m * 2\<^sup>e\<close>;
      \<open>n\<close> plus the first argument is 17, the number of digits that tells any two floats
      apart\<close>
  "shortest_digits 0 n m e k =
     (case digits_found n m e k of Some r \<Rightarrow> r | None \<Rightarrow> nearest_digits n m e k)"
| "shortest_digits (Suc f) n m e k =
     (case digits_found n m e k of Some r \<Rightarrow> r | None \<Rightarrow> shortest_digits f (Suc n) m e k)"

definition repr_layout :: "string \<Rightarrow> int \<Rightarrow> string" where
  \<comment> \<open>the digits \<open>ds\<close> with the decimal point after \<open>decpt\<close> of them: fixed notation for
      \<open>-4 < decpt \<le> 16\<close>, exponent notation otherwise\<close>
  "repr_layout ds decpt =
     (if decpt \<le> - 4 \<or> 16 < decpt
      then take 1 ds @ (if 1 < length ds then CHR ''.'' # drop 1 ds else [])
           @ ''e'' @ (if decpt - 1 < 0 then ''-'' else ''+'')
           @ zero_pad 2 (str_nat (nat \<bar>decpt - 1\<bar>))
      else if decpt \<le> 0 then ''0.'' @ replicate (nat (- decpt)) (CHR ''0'') @ ds
      else if int (length ds) \<le> decpt
      then ds @ replicate (nat decpt - length ds) (CHR ''0'') @ ''.0''
      else take (nat decpt) ds @ CHR ''.'' # drop (nat decpt) ds)"

definition float_repr :: "pyfloat \<Rightarrow> string" where
  \<comment> \<open>\<open>repr(x)\<close>, which is also what an f-string with no format specification gives\<close>
  "float_repr x =
     (case x of
        NaN \<Rightarrow> ''nan''
      | Infinity s \<Rightarrow> sign_str s @ ''inf''
      | Finite s m e \<Rightarrow>
          sign_str s @
          (if m = 0 then ''0.0''
           else let k = decimal_exponent (m * 2 ^ nat e) (2 ^ nat (- e));
                    dx = shortest_digits 16 1 m e k;
                    all_digits = str_nat (fst dx);
                    ds = rev (dropWhile (\<lambda>c. c = CHR ''0'') (rev all_digits))
                in repr_layout ds (snd dx + int (length all_digits))))"

section \<open>Data model\<close>

record transformation_point =
  name :: string
  latitude :: pyfloat
  longitude :: pyfloat
  ellipsoid_height :: pyfloat

record transformation_result =
  result_name :: string
  result_latitude :: pyfloat
  result_longitude :: pyfloat
  result_ellipsoid_height :: pyfloat

record htdp_execution =
  stdout :: string
  stderr :: string
  results :: "transformation_result list"

text \<open>A file system maps a path to the text of the file there.\<close>

type_synonym filesystem = "string \<rightharpoonup> string"

definition newline :: string where
  "newline = [CHR 0x0A]"

section \<open>Script builder\<close>

definition script_lines ::
  "string \<Rightarrow> int \<Rightarrow> int \<Rightarrow> pyfloat \<Rightarrow> pyfloat \<Rightarrow> string \<Rightarrow> string list" where
  \<comment> \<open>the list \<open>lines\<close> of \<open>build_stdin_script\<close> after the final \<open>append\<close>\<close>
  "script_lines output_path input_frame output_frame input_epoch output_epoch input_file =
     [''4'',
      output_path,
      str_int input_frame,
      str_int output_frame,
      ''2'',
      float_repr input_epoch,
      ''2'',
      float_repr output_epoch,
      ''3'',
      input_file,
      ''0'']
     @ [''0'']"

definition build_stdin_script ::
  "string \<Rightarrow> int \<Rightarrow> int \<Rightarrow> pyfloat \<Rightarrow> pyfloat \<Rightarrow> string \<Rightarrow> string" where
  "build_stdin_script output_path input_frame output_frame input_epoch output_epoch input_file =
     py_join newline
       (script_lines output_path input_frame output_frame input_epoch output_epoch input_file)
     @ newline"

section \<open>Point codec\<close>

definition point_line :: "transformation_point \<Rightarrow> string" where
  \<comment> \<open>what the body of the loop of \<open>write_input_file\<close> writes for one point\<close>
  "point_line point =
     (let lon_west = fneg (longitude point)
      in format_f 12 (latitude point) @ '','' @ format_f 12 lon_west @ '',''
         @ format_f 4 (ellipsoid_height point) @ '','' @ name point @ newline)"

definition write_input_file :: "transformation_point list \<Rightarrow> string \<Rightarrow> filesystem \<Rightarrow> filesystem" where
  "write_input_file pts path fs = fs(path \<mapsto> concat (map point_line pts))"

fun universal_newlines :: "string \<Rightarrow> string" where
  \<comment> \<open>text mode reading: CR LF and a single CR become LF\<close>
  "universal_newlines [] = []"
| "universal_newlines [c] = (if c = CHR 0x0D then [CHR 0x0A] else [c])"
| "universal_newlines (c # d # cs) =
     (if c = CHR 0x0D
      then (if d = CHR 0x0A then CHR 0x0A # universal_newlines cs
            else CHR 0x0A # universal_newlines (d # cs))
      else c # universal_newlines (d # cs))"

fun split_lines :: "string \<Rightarrow> string \<Rightarrow> string list" where
  \<comment> \<open>the lines a file object yields, each with its LF; the first argument is the line read
      so far, reversed\<close>
  "split_lines cur [] = (if cur = [] then [] else [rev cur])"
| "split_lines cur (c # cs) =
     (if c = CHR 0x0A then rev (c # cur) # split_lines [] cs else split_lines (c # cur) cs)"

definition file_lines :: "string \<Rightarrow> string list" where
  \<comment> \<open>\<open>for line in handle\<close>\<close>
  "file_lines text = split_lines [] (universal_newlines text)"

definition parse_line :: "string \<Rightarrow> transformation_result option" where
  \<comment> \<open>the body of the loop of \<open>parse_output_file\<close>; \<open>None\<close> stands for \<open>continue\<close>\<close>
  "parse_line line =
     (let stripped = py_strip line
      in if stripped = [] then None
         else if py_startswith stripped ''TRANSFORMING'' \<or> py_startswith stripped ''***''
         then None
         else (let parts = py_split stripped
               in if length parts < 4 then None
                  else (case py_float (parts ! 0) of
                          None \<Rightarrow> None
                        | Some lat \<Rightarrow>
                            (case py_float (parts ! 1) of
                               None \<Rightarrow> None
                             | Some longitude_west \<Rightarrow>
                                 (case py_float (parts ! 2) of
                                    None \<Rightarrow> None
                                  | Some height \<Rightarrow>
                                      Some \<lparr>result_name = py_join '' '' (drop 3 parts),
                                            result_latitude = lat,
                                            result_longitude = fneg longitude_west,
                                            result_ellipsoid_height = height\<rparr>)))))"

definition parse_lines :: "string list \<Rightarrow> transformation_result list" where
  \<comment> \<open>the loop over the lines: a parsed line appends its result, in file order\<close>
  "parse_lines ls = List.map_filter parse_line ls"

definition parse_output_file :: "filesystem \<Rightarrow> string \<Rightarrow> error + transformation_result list" where
  "parse_output_file fs path =
     (case fs path of
        None \<Rightarrow> Inl (OutputFileNotCreated path)
      | Some text \<Rightarrow> Inr (parse_lines (file_lines text)))"

section \<open>Engine invoker\<close>

text \<open>A validated request: both frames are resolved menu indices.\<close>

record transformation_request =
  input_frame :: int
  output_frame :: int
  input_epoch :: pyfloat
  output_epoch :: pyfloat
  points :: "transformation_point list"

text \<open>
  What the binary does is a parameter: given the text on its standard input and the file
  system, it runs for some time, then exits with a return code, having written to its
  standard output, its standard error and the file system.
\<close>

record engine_run =
  duration :: rat
  returncode :: int
  run_stdout :: string
  run_stderr :: string
  files_after :: filesystem

record environment =
  binary_exists :: bool
  binary_executable :: bool
  tmpdir :: string
  engine :: "string \<Rightarrow> filesystem \<Rightarrow> engine_run"

datatype child = NotStarted | Exited int | Killed

definition ensure_binary_exists :: "environment \<Rightarrow> error + unit" where
  "ensure_binary_exists env =
     (if \<not> binary_exists env then Inl BinaryNotFound
      else if \<not> binary_executable env then Inl BinaryNotExecutable
      else Inr ())"

definition subprocess_run ::
  "(string \<Rightarrow> filesystem \<Rightarrow> engine_run) \<Rightarrow> string \<Rightarrow> filesystem \<Rightarrow> int
     \<Rightarrow> (error + engine_run) \<times> child" where
  \<comment> \<open>\<open>subprocess.run(..., timeout=timeout, check=False)\<close>: a child still running when the
      timeout expires is killed and TimeoutExpired is raised\<close>
  "subprocess_run eng input fs timeout =
     (let r = eng input fs
      in if of_int timeout < duration r then (Inl (EngineTimeout timeout), Killed)
         else (Inr r, Exited (returncode r)))"

definition input_file_path :: "environment \<Rightarrow> string" where
  "input_file_path env = tmpdir env @ ''/points.txt''"

definition output_file_path :: "environment \<Rightarrow> string" where
  "output_file_path env = tmpdir env @ ''/results.txt''"

definition stdin_script :: "environment \<Rightarrow> transformation_request \<Rightarrow> string" where
  \<comment> \<open>the local \<open>stdin_script\<close> of \<open>run_transformation\<close>\<close>
  "stdin_script env payload =
     build_stdin_script (output_file_path env) (input_frame payload) (output_frame payload)
       (input_epoch payload) (output_epoch payload) (input_file_path env)"

definition run_transformation ::
  "environment \<Rightarrow> filesystem \<Rightarrow> transformation_request \<Rightarrow> int
     \<Rightarrow> (error + htdp_execution) \<times> child" where
  \<comment> \<open>the result, or the exception raised, and what became of the child process\<close>
  "run_transformation env fs payload timeout =
     (case ensure_binary_exists env of
        Inl err \<Rightarrow> (Inl err, NotStarted)
      | Inr u \<Rightarrow>
          (let fs1 = write_input_file (points payload) (input_file_path env) fs
           in case subprocess_run (engine env) (stdin_script env payload) fs1 timeout of
                (Inl err, c) \<Rightarrow> (Inl err, c)
              | (Inr completed, c) \<Rightarrow>
                  if returncode completed \<noteq> 0
                  then (Inl (ExecutionFailed (run_stdout completed) (run_stderr completed)), c)
                  else (case parse_output_file (files_after completed) (output_file_path env) of
                          Inl err \<Rightarrow> (Inl err, c)
                        | Inr rs \<Rightarrow>
                            (Inr \<lparr>stdout = run_stdout completed,
                                  stderr = run_stderr completed,
                                  results = rs\<rparr>, c))))"

section \<open>Service layer\<close>

datatype http_outcome =
    Response htdp_execution    \<comment> \<open>the execution record is returned\<close>
  | HTTPException nat error    \<comment> \<open>status code; the detail is made from the exception\<close>
  | Unhandled error            \<comment> \<open>no handler of \<open>transform\<close> matches: the exception propagates\<close>

definition transform :: "environment \<Rightarrow> filesystem \<Rightarrow> transformation_request \<Rightarrow> http_outcome" where
  \<comment> \<open>\<open>run_transformation(request)\<close> runs with the default timeout of 60 seconds\<close>
  "transform env fs request =
     (case fst (run_transformation env fs request 60) of
        Inr execution \<Rightarrow> Response execution
      | Inl exc \<Rightarrow>
          (case class_of exc of
             ValueError \<Rightarrow> HTTPException 400 exc
           | FileNotFoundError \<Rightarrow> HTTPException 500 exc
           | PermissionError \<Rightarrow> HTTPException 500 exc
           | RuntimeError \<Rightarrow> HTTPException 500 exc
           | IndexError \<Rightarrow> Unhandled exc
           | TimeoutExpired \<Rightarrow> Unhandled exc))"

section \<open>Reading back what was written\<close>




section \<open>Decimal strings\<close>

lemma of_char_digit_char: "d < 10 \<Longrightarrow> (of_char (digit_char d) :: nat) = 48 + d"
  by (simp add: digit_char_def)

lemma is_ascii_digit_digit_char: "d < 10 \<Longrightarrow> is_ascii_digit (digit_char d)"
  by (simp add: is_ascii_digit_def of_char_digit_char)

lemma digit_val_digit_char: "d < 10 \<Longrightarrow> digit_val (digit_char d) = d"
  by (simp add: digit_val_def of_char_digit_char)

lemma ascii_digit_not_space: "is_ascii_digit c \<Longrightarrow> \<not> py_isspace c"
  by (auto simp: is_ascii_digit_def py_isspace_def Let_def)

lemma ascii_digit_isdigit: "is_ascii_digit c \<Longrightarrow> py_isdigit_char c"
  by (auto simp: is_ascii_digit_def py_isdigit_char_def Let_def)

lemma str_nat_digits: "list_all is_ascii_digit (str_nat n)"
proof (induction n rule: str_nat.induct)
  case (1 n)
  show ?case
  proof (cases "n < 10")
    case True
    then show ?thesis by (simp add: str_nat.simps [of n] is_ascii_digit_digit_char)
  next
    case False
    with 1 show ?thesis by (simp add: str_nat.simps [of n] is_ascii_digit_digit_char)
  qed
qed

lemma str_nat_not_Nil: "str_nat n \<noteq> []"
  by (subst str_nat.simps) simp

lemma nat_of_digits_snoc: "nat_of_digits (s @ [c]) = 10 * nat_of_digits s + digit_val c"
  by (simp add: nat_of_digits_def)

lemma nat_of_digits_str_nat: "nat_of_digits (str_nat n) = n"
proof (induction n rule: str_nat.induct)
  case (1 n)
  show ?case
  proof (cases "n < 10")
    case True
    then show ?thesis
      by (simp add: str_nat.simps [of n] nat_of_digits_def digit_val_digit_char)
  next
    case False
    with 1 show ?thesis
      by (simp add: str_nat.simps [of n] nat_of_digits_snoc digit_val_digit_char)
  qed
qed

lemma py_strip_no_space:
  assumes "list_all (\<lambda>c. \<not> py_isspace c) s"
  shows "py_strip s = s"
proof -
  have l: "dropWhile py_isspace s = s"
    using assms by (cases s) simp_all
  have "list_all (\<lambda>c. \<not> py_isspace c) (rev s)"
    using assms by (simp add: list_all_iff)
  then have "dropWhile py_isspace (rev s) = rev s"
    by (cases "rev s") simp_all
  with l show ?thesis
    by (simp add: py_strip_def py_lstrip_def py_rstrip_def)
qed

lemma digits_no_space: "list_all is_ascii_digit s \<Longrightarrow> list_all (\<lambda>c. \<not> py_isspace c) s"
  by (induction s) (auto simp: ascii_digit_not_space)

lemma resolve_digit_string:
  "resolve_frame (TextId (str_nat n)) = resolve_index (int n)"
proof -
  have "py_strip (str_nat n) = str_nat n"
    by (intro py_strip_no_space digits_no_space str_nat_digits)
  moreover have "py_isdigit (str_nat n)"
    using str_nat_digits [of n] str_nat_not_Nil [of n]
    by (auto simp: py_isdigit_def list_all_iff ascii_digit_isdigit)
  moreover have "py_int (str_nat n) = Some (int n)"
    using str_nat_digits [of n] str_nat_not_Nil [of n]
    by (simp add: py_int_def nat_of_digits_str_nat)
  ultimately show ?thesis
    using str_nat_not_Nil [of n] by simp
qed

section \<open>The alias index\<close>

lemma in_keys_iff: "k \<in> set (map fst d) \<longleftrightarrow> (\<exists>v. map_of d k = Some v)"
  using map_of_eq_None_iff [of d k] by auto

lemma dict_setdefault_alt:
  "dict_setdefault k v d = (case map_of d k of Some x \<Rightarrow> d | None \<Rightarrow> d @ [(k, v)])"
  unfolding dict_setdefault_def in_keys_iff by (cases "map_of d k") simp_all

lemma dict_set_fresh: "map_of d k = None \<Longrightarrow> dict_set k v d = d @ [(k, v)]"
  unfolding dict_set_def in_keys_iff by simp

lemma map_of_dict_setdefault:
  "map_of (dict_setdefault k v d) k' =
     (case map_of d k' of Some x \<Rightarrow> Some x | None \<Rightarrow> if k' = k then Some v else None)"
  by (auto simp: dict_setdefault_alt map_add_def split: option.splits)

lemma map_of_dict_set_fresh:
  "map_of d k = None \<Longrightarrow> map_of (dict_set k v d) k' =
     (case map_of d k' of Some x \<Rightarrow> Some x | None \<Rightarrow> if k' = k then Some v else None)"
  by (auto simp: dict_set_fresh map_add_def split: option.splits)

lemma register_frame_map_of:
  assumes "map_of d (normalise_label (snd e)) = None" and "py_split (snd e) \<noteq> []"
  shows "\<exists>d'. register_frame e d = Inr d' \<and> (\<forall>k. map_of d' k =
     (case map_of d k of Some v \<Rightarrow> Some v
      | None \<Rightarrow> if k \<in> set (alias_keys e) then Some (fst e) else None))"
  using assms
  by (auto simp: register_frame_def alias_keys_def Let_def map_of_dict_setdefault
        map_of_dict_set_fresh split: list.splits if_splits option.splits)

lemma keys_after_register:
  assumes "\<forall>k. map_of d' k =
     (case map_of d k of Some v \<Rightarrow> Some v
      | None \<Rightarrow> if k \<in> set (alias_keys e) then Some (fst e) else None)"
  shows "set (map fst d') = set (map fst d) \<union> set (alias_keys e)"
proof -
  have "k \<in> set (map fst d') \<longleftrightarrow> k \<in> set (map fst d) \<union> set (alias_keys e)" for k
    unfolding in_keys_iff Un_iff using assms by (auto split: option.splits)
  then show ?thesis by blast
qed

lemma register_all_map_of:
  "fresh_labels es seen \<Longrightarrow> set seen = set (map fst d) \<Longrightarrow>
   \<exists>d'. register_all es d = Inr d' \<and>
     (\<forall>k. map_of d' k = (case map_of d k of Some v \<Rightarrow> Some v | None \<Rightarrow> first_registration es k))"
proof (induction es arbitrary: d seen)
  case Nil
  then show ?case by (simp add: first_registration_def split: option.splits)
next
  case (Cons e es)
  from Cons.prems have fresh: "map_of d (normalise_label (snd e)) = None"
    and word: "py_split (snd e) \<noteq> []"
    and rest: "fresh_labels es (seen @ alias_keys e)"
    by (auto simp: map_of_eq_None_iff split: if_splits)
  from register_frame_map_of [OF fresh word] obtain d1
    where d1: "register_frame e d = Inr d1"
      and m1: "\<forall>k. map_of d1 k =
         (case map_of d k of Some v \<Rightarrow> Some v
          | None \<Rightarrow> if k \<in> set (alias_keys e) then Some (fst e) else None)"
    by blast
  have keys: "set (seen @ alias_keys e) = set (map fst d1)"
    using keys_after_register [OF m1] Cons.prems(2) by simp
  from Cons.IH [OF rest keys] obtain d'
    where d': "register_all es d1 = Inr d'"
      and m': "\<forall>k. map_of d' k =
         (case map_of d1 k of Some v \<Rightarrow> Some v | None \<Rightarrow> first_registration es k)"
    by blast
  have "register_all (e # es) d = Inr d'"
    using d1 d' by simp
  moreover have "map_of d' k =
      (case map_of d k of Some v \<Rightarrow> Some v | None \<Rightarrow> first_registration (e # es) k)" for k
    using m' [rule_format, of k] m1 [rule_format, of k]
    by (auto simp: first_registration_def split: option.splits)
  ultimately show ?case by blast
qed

lemma fresh_labels_prefix: "fresh_labels (es1 @ es2) seen \<Longrightarrow> fresh_labels es1 seen"
  by (induction es1 arbitrary: seen) (auto split: if_splits)

lemma first_registration_append:
  "first_registration (es1 @ es2) k =
     (case first_registration es1 k of Some v \<Rightarrow> Some v | None \<Rightarrow> first_registration es2 k)"
  by (induction es1) (auto simp: first_registration_def)

lemma fresh_labels_suffix:
  "fresh_labels (es1 @ es2) seen \<Longrightarrow> set seen = set (map fst d0) \<Longrightarrow>
   register_all es1 d0 = Inr d \<Longrightarrow>
   \<exists>seen'. set seen' = set (map fst d) \<and> fresh_labels es2 seen'"
proof (induction es1 arbitrary: seen d0)
  case Nil
  then show ?case by auto
next
  case (Cons e es1)
  from Cons.prems(1) have fresh: "map_of d0 (normalise_label (snd e)) = None"
    and word: "py_split (snd e) \<noteq> []"
    and rest: "fresh_labels (es1 @ es2) (seen @ alias_keys e)"
    using Cons.prems(2) by (auto simp: map_of_eq_None_iff split: if_splits)
  from register_frame_map_of [OF fresh word] obtain d1
    where d1: "register_frame e d0 = Inr d1"
      and m1: "\<forall>k. map_of d1 k =
         (case map_of d0 k of Some v \<Rightarrow> Some v
          | None \<Rightarrow> if k \<in> set (alias_keys e) then Some (fst e) else None)"
    by blast
  have keys: "set (seen @ alias_keys e) = set (map fst d1)"
    using keys_after_register [OF m1] Cons.prems(2) by simp
  from Cons.prems(3) d1 have "register_all es1 d1 = Inr d"
    by simp
  from Cons.IH [OF rest keys this] show ?case .
qed

lemma dict_setdefault_keeps:
  "map_of d k = Some v \<Longrightarrow> map_of (dict_setdefault k' v' d) k = Some v"
  by (simp add: map_of_dict_setdefault)

lemma alias_keys_table:
  "alias_keys (1, ''NAD_83(2011/CORS96/2007)'') = [''nad832011cors962007'', ''nad832011cors962007'', ''nad83'']"
  "alias_keys (2, ''NAD_83(PA11/PACP00)'') = [''nad83pa11pacp00'', ''nad83pa11pacp00'', ''nad83'']"
  "alias_keys (3, ''NAD_83(MA11/MARP00)'') = [''nad83ma11marp00'', ''nad83ma11marp00'', ''nad83'']"
  "alias_keys (4, ''WGS72'') = [''wgs72'', ''wgs72'']"
  "alias_keys (5, ''WGS84 original (Transit)'') = [''wgs84originaltransit'', ''wgs84'', ''wgs84original'']"
  "alias_keys (6, ''WGS84(G730)'') = [''wgs84g730'', ''wgs84g730'', ''wgs84'']"
  "alias_keys (7, ''WGS84(G873)'') = [''wgs84g873'', ''wgs84g873'', ''wgs84'']"
  "alias_keys (8, ''WGS84(G1150)'') = [''wgs84g1150'', ''wgs84g1150'', ''wgs84'']"
  "alias_keys (9, ''WGS84(G1674)'') = [''wgs84g1674'', ''wgs84g1674'', ''wgs84'']"
  "alias_keys (10, ''WGS84(G1762)'') = [''wgs84g1762'', ''wgs84g1762'', ''wgs84'']"
  "alias_keys (11, ''WGS84(G2139)'') = [''wgs84g2139'', ''wgs84g2139'', ''wgs84'']"
  "alias_keys (12, ''WGS84(G2296)'') = [''wgs84g2296'', ''wgs84g2296'', ''wgs84'']"
  "alias_keys (13, ''ITRF88'') = [''itrf88'', ''itrf88'']"
  "alias_keys (14, ''ITRF89'') = [''itrf89'', ''itrf89'']"
  "alias_keys (15, ''ITRF90'') = [''itrf90'', ''itrf90'']"
  "alias_keys (16, ''ITRF91'') = [''itrf91'', ''itrf91'']"
  "alias_keys (17, ''ITRF92'') = [''itrf92'', ''itrf92'']"
  "alias_keys (18, ''ITRF93'') = [''itrf93'', ''itrf93'']"
  "alias_keys (19, ''ITRF94'') = [''itrf94'', ''itrf94'']"
  "alias_keys (20, ''ITRF96'') = [''itrf96'', ''itrf96'']"
  "alias_keys (21, ''ITRF97'') = [''itrf97'', ''itrf97'']"
  "alias_keys (22, ''ITRF2000 or IGS00/IGb00'') = [''itrf2000origs00igb00'', ''itrf2000'']"
  "alias_keys (23, ''ITRF2005 or IGS05'') = [''itrf2005origs05'', ''itrf2005'']"
  "alias_keys (24, ''ITRF2008 or IGS08/IGb08'') = [''itrf2008origs08igb08'', ''itrf2008'']"
  "alias_keys (25, ''ITRF2014 or IGS14/IGb14'') = [''itrf2014origs14igb14'', ''itrf2014'']"
  "alias_keys (26, ''ITRF2020 or IGS20/IGb20'') = [''itrf2020origs20igb20'', ''itrf2020'']"
  by (simp_all add: alias_keys_def normalise_label_def py_lower_def py_lower_char_def is_label_char_def
        py_split_def py_isspace_def)

lemma label_key_table:
  "normalise_label ''NAD_83(2011/CORS96/2007)'' = ''nad832011cors962007''"
  "normalise_label ''NAD_83(PA11/PACP00)'' = ''nad83pa11pacp00''"
  "normalise_label ''NAD_83(MA11/MARP00)'' = ''nad83ma11marp00''"
  "normalise_label ''WGS72'' = ''wgs72''"
  "normalise_label ''WGS84 original (Transit)'' = ''wgs84originaltransit''"
  "normalise_label ''WGS84(G730)'' = ''wgs84g730''"
  "normalise_label ''WGS84(G873)'' = ''wgs84g873''"
  "normalise_label ''WGS84(G1150)'' = ''wgs84g1150''"
  "normalise_label ''WGS84(G1674)'' = ''wgs84g1674''"
  "normalise_label ''WGS84(G1762)'' = ''wgs84g1762''"
  "normalise_label ''WGS84(G2139)'' = ''wgs84g2139''"
  "normalise_label ''WGS84(G2296)'' = ''wgs84g2296''"
  "normalise_label ''ITRF88'' = ''itrf88''"
  "normalise_label ''ITRF89'' = ''itrf89''"
  "normalise_label ''ITRF90'' = ''itrf90''"
  "normalise_label ''ITRF91'' = ''itrf91''"
  "normalise_label ''ITRF92'' = ''itrf92''"
  "normalise_label ''ITRF93'' = ''itrf93''"
  "normalise_label ''ITRF94'' = ''itrf94''"
  "normalise_label ''ITRF96'' = ''itrf96''"
  "normalise_label ''ITRF97'' = ''itrf97''"
  "normalise_label ''ITRF2000 or IGS00/IGb00'' = ''itrf2000origs00igb00''"
  "normalise_label ''ITRF2005 or IGS05'' = ''itrf2005origs05''"
  "normalise_label ''ITRF2008 or IGS08/IGb08'' = ''itrf2008origs08igb08''"
  "normalise_label ''ITRF2014 or IGS14/IGb14'' = ''itrf2014origs14igb14''"
  "normalise_label ''ITRF2020 or IGS20/IGb20'' = ''itrf2020origs20igb20''"
  by (simp_all add: normalise_label_def py_lower_def py_lower_char_def is_label_char_def)

lemma label_word_table:
  "py_split ''NAD_83(2011/CORS96/2007)'' \<noteq> []"
  "py_split ''NAD_83(PA11/PACP00)'' \<noteq> []"
  "py_split ''NAD_83(MA11/MARP00)'' \<noteq> []"
  "py_split ''WGS72'' \<noteq> []"
  "py_split ''WGS84 original (Transit)'' \<noteq> []"
  "py_split ''WGS84(G730)'' \<noteq> []"
  "py_split ''WGS84(G873)'' \<noteq> []"
  "py_split ''WGS84(G1150)'' \<noteq> []"
  "py_split ''WGS84(G1674)'' \<noteq> []"
  "py_split ''WGS84(G1762)'' \<noteq> []"
  "py_split ''WGS84(G2139)'' \<noteq> []"
  "py_split ''WGS84(G2296)'' \<noteq> []"
  "py_split ''ITRF88'' \<noteq> []"
  "py_split ''ITRF89'' \<noteq> []"
  "py_split ''ITRF90'' \<noteq> []"
  "py_split ''ITRF91'' \<noteq> []"
  "py_split ''ITRF92'' \<noteq> []"
  "py_split ''ITRF93'' \<noteq> []"
  "py_split ''ITRF94'' \<noteq> []"
  "py_split ''ITRF96'' \<noteq> []"
  "py_split ''ITRF97'' \<noteq> []"
  "py_split ''ITRF2000 or IGS00/IGb00'' \<noteq> []"
  "py_split ''ITRF2005 or IGS05'' \<noteq> []"
  "py_split ''ITRF2008 or IGS08/IGb08'' \<noteq> []"
  "py_split ''ITRF2014 or IGS14/IGb14'' \<noteq> []"
  "py_split ''ITRF2020 or IGS20/IGb20'' \<noteq> []"
  by (simp_all add: py_split_def py_isspace_def)

lemma fresh_FRAME_MENU: "fresh_labels FRAME_MENU []"
  by (simp only: FRAME_MENU_def fresh_labels.simps alias_keys_table label_key_table
        label_word_table snd_conv append.simps list.set insert_iff empty_iff list.inject
        char.inject simp_thms if_True if_False list.distinct)

lemma frame_aliases_lookup: "map_of frame_aliases k = first_registration FRAME_MENU k"
proof -
  from register_all_map_of [OF fresh_FRAME_MENU, of "[]"] obtain d'
    where "register_all FRAME_MENU [] = Inr d'"
      and "\<forall>k. map_of d' k = first_registration FRAME_MENU k"
    by auto
  then show ?thesis by (simp add: frame_aliases_def)
qed

lemma frame_index_range: "i \<in> set (map fst FRAME_MENU) \<longleftrightarrow> 1 \<le> i \<and> i \<le> 26"
  unfolding FRAME_MENU_def by (simp del: set_map) arith

lemma first_registration_index:
  "first_registration cat k = Some i \<Longrightarrow> i \<in> set (map fst cat)"
  by (induction cat) (auto simp: first_registration_def split: if_splits)

text \<open>
  Claim C2.  The alias index built from the catalog is first-registration-wins: every key is
  bound to the index of the first catalog entry, in catalog order, that registers it (as full
  label, leading word or text before the parenthesis).  No registration overwrites a
  binding: a binding present after any prefix of the catalog has been processed is the
  binding of the finished index, the full label of an entry, which is registered by
  assignment, is never a key already present when its entry is reached, and \<open>setdefault\<close>
  keeps every binding.  The index is a constant, so a key resolves to the same index always.
\<close>

theorem alias_first_registration_wins:
  "map_of frame_aliases k = first_registration FRAME_MENU k \<and>
   (FRAME_MENU = es1 @ es2 \<longrightarrow> register_all es1 [] = Inr d \<longrightarrow> map_of d k = Some v
      \<longrightarrow> map_of frame_aliases k = Some v) \<and>
   (FRAME_MENU = es1 @ e # es3 \<longrightarrow> register_all es1 [] = Inr d
      \<longrightarrow> map_of d (normalise_label (snd e)) = None) \<and>
   (map_of d k = Some v \<longrightarrow> map_of (dict_setdefault k' v' d) k = Some v)"
proof (intro conjI impI)
  show "map_of frame_aliases k = first_registration FRAME_MENU k"
    by (rule frame_aliases_lookup)
next
  assume cat: "FRAME_MENU = es1 @ es2" and run: "register_all es1 [] = Inr d"
    and bound: "map_of d k = Some v"
  have "fresh_labels es1 []"
    using fresh_FRAME_MENU unfolding cat by (rule fresh_labels_prefix)
  from register_all_map_of [OF this, of "[]"] run
  have "map_of d k = first_registration es1 k" by auto
  with bound have "first_registration (es1 @ es2) k = Some v"
    by (simp add: first_registration_append)
  then show "map_of frame_aliases k = Some v"
    by (simp add: frame_aliases_lookup cat)
next
  assume cat: "FRAME_MENU = es1 @ e # es3" and run: "register_all es1 [] = Inr d"
  have "fresh_labels (es1 @ e # es3) []"
    using fresh_FRAME_MENU unfolding cat .
  from fresh_labels_suffix [OF this _ run] obtain seen
    where "set seen = set (map fst d)" and "fresh_labels (e # es3) seen"
    by auto
  then have "normalise_label (snd e) \<notin> set (map fst d)"
    by (auto split: if_splits)
  then show "map_of d (normalise_label (snd e)) = None"
    by (simp add: map_of_eq_None_iff)
next
  assume "map_of d k = Some v"
  then show "map_of (dict_setdefault k' v' d) k = Some v"
    by (rule dict_setdefault_keeps)
qed

theorem alias_first_registration_wins_witness:
  "FRAME_MENU = [(1, ''NAD_83(2011/CORS96/2007)'')] @ tl FRAME_MENU \<and>
   FRAME_MENU = [(1, ''NAD_83(2011/CORS96/2007)'')] @ (2, ''NAD_83(PA11/PACP00)'') # drop 2 FRAME_MENU \<and>
   register_all [(1, ''NAD_83(2011/CORS96/2007)'')] [] =
     Inr [(''nad832011cors962007'', 1), (''nad83'', 1)] \<and>
   map_of [(''nad832011cors962007'', 1), (''nad83'', 1)] ''nad83'' = Some (1::int) \<and>
   map_of frame_aliases ''nad83'' = Some 1 \<and>
   first_registration FRAME_MENU ''nad83'' = Some 1 \<and>
   map_of [(''nad832011cors962007'', 1), (''nad83'', 1)] (normalise_label ''NAD_83(PA11/PACP00)'')
     = (None :: int option) \<and>
   map_of (dict_setdefault ''nad83'' 2 [(''nad832011cors962007'', 1), (''nad83'', 1)]) ''nad83''
     = Some 1"
proof -
  have a: "FRAME_MENU = [(1, ''NAD_83(2011/CORS96/2007)'')] @ tl FRAME_MENU"
    by (simp add: FRAME_MENU_def)
  have a': "FRAME_MENU = [(1, ''NAD_83(2011/CORS96/2007)'')] @ (2, ''NAD_83(PA11/PACP00)'') # drop 2 FRAME_MENU"
    by (simp add: FRAME_MENU_def)
  have b: "register_all [(1, ''NAD_83(2011/CORS96/2007)'')] [] =
     Inr [(''nad832011cors962007'', 1), (''nad83'', 1)]"
    by (simp add: register_frame_def dict_set_def dict_setdefault_def label_key_table
          py_split_def py_isspace_def normalise_label_def py_lower_def py_lower_char_def
          is_label_char_def)
  have c: "map_of [(''nad832011cors962007'', 1), (''nad83'', 1)] ''nad83'' = Some (1::int)"
    by simp
  note inst = alias_first_registration_wins
    [of "''nad83''" "[(1, ''NAD_83(2011/CORS96/2007)'')]" "tl FRAME_MENU"
        "[(''nad832011cors962007'', 1), (''nad83'', 1)]" 1
        "(2, ''NAD_83(PA11/PACP00)'')" "drop 2 FRAME_MENU" "''nad83''" 2]
  from inst a b c have d: "map_of frame_aliases ''nad83'' = Some 1"
    by blast
  from inst d have e: "first_registration FRAME_MENU ''nad83'' = Some 1"
    by metis
  from inst a' b have f: "map_of [(''nad832011cors962007'', 1), (''nad83'', 1)]
       (normalise_label (snd (2 :: int, ''NAD_83(PA11/PACP00)''))) = (None :: int option)"
    by blast
  from inst c have g: "map_of (dict_setdefault ''nad83'' 2 [(''nad832011cors962007'', 1), (''nad83'', 1)]) ''nad83''
     = Some 1"
    by blast
  from a a' b c d e f g show ?thesis
    by (simp only: snd_conv simp_thms)
qed

lemma resolve_text_examples:
  "resolve_frame (TextId ''itrf2014'') = Inr 25"
  "resolve_frame (TextId ''ITRF2014'') = Inr 25"
  "resolve_frame (TextId ''itrf-2014'') = Inr 25"
  "resolve_frame (TextId ''wgs84'') = Inr 5"
  by (simp_all add: frame_aliases_lookup first_registration_def FRAME_MENU_def alias_keys_table
        py_strip_def py_lstrip_def py_rstrip_def py_isspace_def py_isdigit_def py_isdigit_char_def
        normalise_label_def py_lower_def py_lower_char_def is_label_char_def)

section \<open>Frame resolution\<close>

lemma digit_char_table:
  "digit_char 0 = CHR ''0''" "digit_char 1 = CHR ''1''" "digit_char 2 = CHR ''2''"
  "digit_char 3 = CHR ''3''" "digit_char 4 = CHR ''4''" "digit_char 5 = CHR ''5''"
  "digit_char 6 = CHR ''6''" "digit_char 7 = CHR ''7''" "digit_char 8 = CHR ''8''"
  "digit_char 9 = CHR ''9''" "digit_char (Suc 0) = CHR ''1''"
  by (simp_all add: digit_char_def char_of_eq_iff take_bit_eq_mod)


lemma resolve_index_iff: "resolve_index v = Inr i \<longleftrightarrow> i = v \<and> v \<in> set (map fst FRAME_MENU)"
  by (auto simp: resolve_index_def)

lemma resolve_frame_in_catalog:
  assumes "resolve_frame v = Inr i"
  shows "i \<in> set (map fst FRAME_MENU)"
proof (cases v)
  case (IntId n)
  with assms show ?thesis by (simp add: resolve_index_iff)
next
  case (TextId t)
  with assms show ?thesis
    by (auto simp: Let_def resolve_index_iff frame_aliases_lookup
          dest: first_registration_index split: if_splits option.splits)
qed


text \<open>
  Claim C10.  Every successful resolution returns a key of the 26-entry catalog, that is an
  integer from 1 to 26, and resolving that index again, as a number or as its digit string,
  succeeds with the same index.
\<close>

theorem resolve_frame_idempotent:
  assumes "resolve_frame v = Inr i"
  shows "1 \<le> i \<and> i \<le> 26 \<and> i \<in> set (map fst FRAME_MENU) \<and>
         resolve_frame (IntId i) = Inr i \<and> resolve_frame (TextId (str_int i)) = Inr i"
proof -
  have mem: "i \<in> set (map fst FRAME_MENU)"
    using assms by (rule resolve_frame_in_catalog)
  then have range: "1 \<le> i \<and> i \<le> 26"
    by (simp only: frame_index_range)
  have idx: "resolve_index i = Inr i"
    using mem by (simp add: resolve_index_iff)
  have "str_int i = str_nat (nat i)"
    using range by (simp add: str_int_def)
  then have "resolve_frame (TextId (str_int i)) = resolve_index (int (nat i))"
    by (simp only: resolve_digit_string)
  with range idx have "resolve_frame (TextId (str_int i)) = Inr i"
    by simp
  with mem range idx show ?thesis by simp
qed

theorem resolve_frame_idempotent_witness:
  "resolve_frame (TextId ''wgs84'') = Inr 5 \<and>
   resolve_frame (IntId 5) = Inr 5 \<and> str_int 5 = ''5'' \<and>
   resolve_frame (TextId ''5'') = Inr 5"
proof -
  have h: "resolve_frame (TextId ''wgs84'') = Inr 5"
    by (rule resolve_text_examples)
  have s: "str_int 5 = ''5''"
    by (simp add: str_int_def str_nat.simps digit_char_table)
  from resolve_frame_idempotent [OF h] s h show ?thesis
    by simp
qed

section \<open>The output decoder\<close>

lemma split_ws_spaces: "list_all py_isspace w \<Longrightarrow> split_ws cur w = (if cur = [] then [] else [rev cur])"
  by (induction w arbitrary: cur) auto

lemma split_ws_trailing: "list_all py_isspace w \<Longrightarrow> split_ws cur (t @ w) = split_ws cur t"
  by (induction t arbitrary: cur) (auto simp: split_ws_spaces)

lemma split_ws_leading: "split_ws [] (dropWhile py_isspace s) = split_ws [] s"
  by (induction s) auto

lemma py_rstrip_decomp: "s = py_rstrip s @ rev (takeWhile py_isspace (rev s))"
proof -
  have "rev (takeWhile py_isspace (rev s) @ dropWhile py_isspace (rev s)) = rev (rev s)"
    by (simp only: takeWhile_dropWhile_id)
  then show ?thesis
    by (simp only: rev_append rev_rev_ident py_rstrip_def)
qed

lemma py_split_rstrip: "py_split (py_rstrip s) = py_split s"
proof -
  have "list_all py_isspace (rev (takeWhile py_isspace (rev s)))"
    by (simp add: list_all_iff) (metis set_takeWhileD)
  from split_ws_trailing [OF this, of "[]" "py_rstrip s"] py_rstrip_decomp [of s]
  show ?thesis by (simp add: py_split_def)
qed

lemma py_split_strip: "py_split (py_strip s) = py_split s"
  by (simp add: py_strip_def py_split_rstrip) (simp add: py_split_def py_lstrip_def split_ws_leading)

lemma py_rstrip_prefix:
  assumes "p \<noteq> []" and "\<not> py_isspace (last p)"
  shows "py_rstrip (p @ r) = p @ py_rstrip r"
proof -
  have "dropWhile py_isspace (rev p) = rev p"
    using assms by (cases p rule: rev_cases) simp_all
  then show ?thesis
    by (simp add: py_rstrip_def dropWhile_append)
qed

lemma py_startswith_iff: "py_startswith s p \<longleftrightarrow> (\<exists>r. s = p @ r)"
  unfolding py_startswith_def
  by (metis append_eq_conv_conj append_take_drop_id)

lemma py_startswith_strip:
  assumes "py_startswith l p" and "p \<noteq> []" and "\<not> py_isspace (hd p)" and "\<not> py_isspace (last p)"
  shows "py_startswith (py_strip l) p"
proof -
  from assms(1) obtain r where l: "l = p @ r"
    by (auto simp: py_startswith_iff)
  have "py_lstrip l = l"
    using assms(2,3) l by (cases p) (simp_all add: py_lstrip_def)
  then have "py_strip l = p @ py_rstrip r"
    using py_rstrip_prefix [OF assms(2,4)] l by (simp add: py_strip_def)
  then show ?thesis by (auto simp: py_startswith_iff)
qed

lemma banner_strip:
  "py_startswith l ''TRANSFORMING'' \<Longrightarrow> py_startswith (py_strip l) ''TRANSFORMING''"
  "py_startswith l ''***'' \<Longrightarrow> py_startswith (py_strip l) ''***''"
  by (erule py_startswith_strip; simp add: py_isspace_def)+

lemma parse_line_blank: "py_strip l = [] \<Longrightarrow> parse_line l = None"
  by (simp add: parse_line_def)

lemma parse_line_banner:
  "py_startswith l ''TRANSFORMING'' \<or> py_startswith l ''***'' \<Longrightarrow> parse_line l = None"
  by (auto simp: parse_line_def Let_def dest: banner_strip)

lemma parse_line_few: "length (py_split l) < 4 \<Longrightarrow> parse_line l = None"
  by (simp add: parse_line_def Let_def py_split_strip)

lemma parse_line_not_float:
  "py_float (py_split l ! 0) = None \<or> py_float (py_split l ! 1) = None
     \<or> py_float (py_split l ! 2) = None \<Longrightarrow> parse_line l = None"
  by (auto simp: parse_line_def Let_def py_split_strip split: option.splits)

lemma parse_lines_skip: "parse_line l = None \<Longrightarrow> parse_lines (xs @ l # ys) = parse_lines (xs @ ys)"
  by (simp add: parse_lines_def map_filter_def)

lemma parse_lines_all_skipped:
  "list_all (\<lambda>l. parse_line l = None) ls \<Longrightarrow> parse_lines ls = []"
  by (induction ls) (simp_all add: parse_lines_def map_filter_def)


text \<open>
  Claim C5.  The decoder skips, without failing, every line that is blank, begins with the
  banner marker \<open>TRANSFORMING\<close> or \<open>***\<close>, has fewer than four whitespace-separated tokens, or
  has one of its first three tokens rejected by \<open>float\<close>: the results of the file are those
  of the file without that line.  A file whose lines all begin with a banner marker decodes
  to the empty list.
\<close>

theorem decoder_skips_noise:
  "(py_strip l = [] \<or> py_startswith l ''TRANSFORMING'' \<or> py_startswith l ''***''
      \<or> length (py_split l) < 4
      \<or> py_float (py_split l ! 0) = None \<or> py_float (py_split l ! 1) = None
      \<or> py_float (py_split l ! 2) = None
    \<longrightarrow> parse_line l = None \<and> parse_lines (before @ l # after) = parse_lines (before @ after))
   \<and> (fs path = Some text
        \<longrightarrow> list_all (\<lambda>l. py_startswith l ''TRANSFORMING'' \<or> py_startswith l ''***'')
              (file_lines text)
        \<longrightarrow> parse_output_file fs path = Inr [])"
proof (intro conjI impI)
  assume noise: "py_strip l = [] \<or> py_startswith l ''TRANSFORMING'' \<or> py_startswith l ''***''
      \<or> length (py_split l) < 4
      \<or> py_float (py_split l ! 0) = None \<or> py_float (py_split l ! 1) = None
      \<or> py_float (py_split l ! 2) = None"
  then show skipped: "parse_line l = None"
    using parse_line_blank parse_line_banner parse_line_few parse_line_not_float by blast
  then show "parse_lines (before @ l # after) = parse_lines (before @ after)"
    by (rule parse_lines_skip)
next
  assume there: "fs path = Some text"
    and banners: "list_all (\<lambda>l. py_startswith l ''TRANSFORMING'' \<or> py_startswith l ''***'')
              (file_lines text)"
  from banners have "list_all (\<lambda>l. parse_line l = None) (file_lines text)"
    by (simp add: list_all_iff parse_line_banner)
  then have "parse_lines (file_lines text) = []"
    by (rule parse_lines_all_skipped)
  with there show "parse_output_file fs path = Inr []"
    by (simp add: parse_output_file_def)
qed

lemma banner_file_lines:
  "file_lines (''*** HTDP ***'' @ newline @ ''*** v3.5 ***'' @ newline @ ''*** end'' @ newline) =
     [''*** HTDP ***'' @ newline, ''*** v3.5 ***'' @ newline, ''*** end'' @ newline]"
  by (simp add: file_lines_def newline_def)

theorem decoder_skips_noise_witness:
  "py_startswith (''*** HTDP ***'' @ newline) ''***'' \<and>
   parse_line (''*** HTDP ***'' @ newline) = None \<and>
   parse_lines ([] @ (''*** HTDP ***'' @ newline) # []) = parse_lines ([] @ []) \<and>
   parse_output_file
     [''results.txt'' \<mapsto> ''*** HTDP ***'' @ newline @ ''*** v3.5 ***'' @ newline @ ''*** end'' @ newline]
     ''results.txt'' = Inr []"
proof -
  have a: "py_startswith (''*** HTDP ***'' @ newline) ''***''"
    by (simp add: py_startswith_def)
  have b: "list_all (\<lambda>l. py_startswith l ''TRANSFORMING'' \<or> py_startswith l ''***'')
     (file_lines (''*** HTDP ***'' @ newline @ ''*** v3.5 ***'' @ newline @ ''*** end'' @ newline))"
    unfolding banner_file_lines by (simp add: py_startswith_def)
  have c: "[''results.txt'' \<mapsto> ''*** HTDP ***'' @ newline @ ''*** v3.5 ***'' @ newline @ ''*** end'' @ newline]
     ''results.txt'' = Some (''*** HTDP ***'' @ newline @ ''*** v3.5 ***'' @ newline @ ''*** end'' @ newline)"
    by simp
  note inst = decoder_skips_noise
    [of "''*** HTDP ***'' @ newline" "[]" "[]"
        "[''results.txt'' \<mapsto> ''*** HTDP ***'' @ newline @ ''*** v3.5 ***'' @ newline @ ''*** end'' @ newline]"
        "''results.txt''"
        "''*** HTDP ***'' @ newline @ ''*** v3.5 ***'' @ newline @ ''*** end'' @ newline"]
  from inst a have d: "parse_line (''*** HTDP ***'' @ newline) = None"
    and e: "parse_lines ([] @ (''*** HTDP ***'' @ newline) # []) = parse_lines ([] @ [])"
    by blast+
  from inst b c have f: "parse_output_file
     [''results.txt'' \<mapsto> ''*** HTDP ***'' @ newline @ ''*** v3.5 ***'' @ newline @ ''*** end'' @ newline]
     ''results.txt'' = Inr []"
    by blast
  from a d e f show ?thesis by blast
qed

text \<open>
  Claim C6.  Decoding fails exactly when there is no file at the output path, and then with
  the error for a missing output file (a FileNotFoundError); a file that is there is decoded
  to the results of its lines, which is the empty list when no line parses.
\<close>

theorem missing_output_file_iff:
  "((\<exists>err. parse_output_file fs path = Inl err) \<longleftrightarrow> fs path = None) \<and>
   (parse_output_file fs path = Inl err
      \<longrightarrow> err = OutputFileNotCreated path \<and> class_of err = FileNotFoundError) \<and>
   (fs path = Some text \<longrightarrow> parse_lines (file_lines text) = []
      \<longrightarrow> parse_output_file fs path = Inr [])"
  by (auto simp: parse_output_file_def class_of_def split: option.splits)

theorem missing_output_file_iff_witness:
  "parse_output_file Map.empty ''results.txt'' = Inl (OutputFileNotCreated ''results.txt'') \<and>
   class_of (OutputFileNotCreated ''results.txt'') = FileNotFoundError \<and>
   parse_lines (file_lines ''no data here'') = [] \<and>
   parse_output_file [''results.txt'' \<mapsto> ''no data here''] ''results.txt'' = Inr []"
proof -
  have a: "parse_output_file Map.empty ''results.txt'' = Inl (OutputFileNotCreated ''results.txt'')"
    by (simp add: parse_output_file_def)
  have "file_lines ''no data here'' = [''no data here'']"
    by (simp add: file_lines_def)
  moreover have "length (py_split ''no data here'') < 4"
    by (simp add: py_split_def py_isspace_def)
  ultimately have b: "parse_lines (file_lines ''no data here'') = []"
    by (simp add: parse_lines_def map_filter_def parse_line_few)
  have c: "[''results.txt'' \<mapsto> ''no data here''] ''results.txt'' = Some ''no data here''"
    by simp
  note inst = missing_output_file_iff
    [of "Map.empty" "''results.txt''" "OutputFileNotCreated ''results.txt''" "''no data here''"]
  note inst2 = missing_output_file_iff
    [of "[''results.txt'' \<mapsto> ''no data here'']" "''results.txt''" "BinaryNotFound"
        "''no data here''"]
  from inst a have d: "class_of (OutputFileNotCreated ''results.txt'') = FileNotFoundError"
    by blast
  from inst2 b c have e: "parse_output_file [''results.txt'' \<mapsto> ''no data here''] ''results.txt'' = Inr []"
    by blast
  from a b d e show ?thesis by blast
qed



section \<open>Floats as text\<close>




lemma str_nat_hd_last: "is_ascii_digit (hd (str_nat k))" "is_ascii_digit (last (str_nat k))"
  using str_nat_digits [of k] str_nat_not_Nil [of k]
  by (auto simp: list_all_iff)





























section \<open>Evaluation at the values of the scenarios\<close>

lemmas round_eval = double_of_decimal_def double_of_ratio_def ratio_exponent_def bitlen.simps
  round_half_even_def

lemma shortest_digits_unfold:
  "shortest_digits fuel n m e k =
     (case digits_found n m e k of
        Some r \<Rightarrow> r
      | None \<Rightarrow> if fuel = 0 then nearest_digits n m e k
                else shortest_digits (fuel - 1) (Suc n) m e k)"
  by (cases fuel) (simp_all split: option.splits)

lemma zero_pad_examples:
  "zero_pad 12 ''0'' = ''000000000000''" "zero_pad 4 ''0'' = ''0000''"
  by (simp_all add: zero_pad_def eval_nat_numeral)

lemma str_nat_examples:
  "str_nat 0 = ''0''" "str_nat 1 = ''1''" "str_nat 25 = ''25''" "str_nat 39 = ''39''"
  "str_nat 104 = ''104''" "str_nat 1600 = ''1600''" "str_nat 2005 = ''2005''"
  "str_nat 2020 = ''2020''" "str_nat (Suc 0) = ''1''"
  by (simp_all add: str_nat.simps digit_char_table)

lemma str_int_examples: "str_int 1 = ''1''" "str_int 25 = ''25''"
  by (simp_all add: str_int_def str_nat_examples)

lemma scaled_round_examples:
  "scaled_round 12 (39 * 2 ^ 47) (- 47) = 39 * 10 ^ 12"
  "scaled_round 12 (104 * 2 ^ 46) (- 46) = 104 * 10 ^ 12"
  "scaled_round 4 (1600 * 2 ^ 42) (- 42) = 1600 * 10 ^ 4"
  "scaled_round 12 0 (- 1074) = 0"
  "scaled_round 4 0 (- 1074) = 0"
  "scaled_round 12 (2 ^ 52) (- 102) = 0"
  by (simp_all add: scaled_round_def round_half_even_def)

lemma fixed_digits_examples:
  "fixed_digits 12 (39 * 10 ^ 12) = ''39.000000000000''"
  "fixed_digits 12 (104 * 10 ^ 12) = ''104.000000000000''"
  "fixed_digits 4 (1600 * 10 ^ 4) = ''1600.0000''"
  by (simp_all add: fixed_digits_def str_nat_examples zero_pad_examples)

lemma format_f_examples:
  "format_f 12 (Finite False (39 * 2 ^ 47) (- 47)) = ''39.000000000000''"
  "format_f 12 (fneg (Finite True (104 * 2 ^ 46) (- 46))) = ''104.000000000000''"
  "format_f 4 (Finite False (1600 * 2 ^ 42) (- 42)) = ''1600.0000''"
  by (simp_all only: format_f_def fneg_def pyfloat.case scaled_round_examples
        fixed_digits_examples sign_str_def not_True_eq_False if_False append_Nil)

lemma decimal_exponent_examples:
  "decimal_exponent (2005 * 2 ^ 42 * 2 ^ nat (- 42)) (2 ^ nat (- (- 42))) = 3"
  "decimal_exponent (2020 * 2 ^ 42 * 2 ^ nat (- 42)) (2 ^ nat (- (- 42))) = 3"
  by (simp_all add: decimal_exponent_def declen.simps)

lemma shortest_digits_examples:
  "shortest_digits 16 1 (2005 * 2 ^ 42) (- 42) 3 = (2005, 0)"
  "shortest_digits 16 1 (2020 * 2 ^ 42) (- 42) 3 = (202, 1)"
  by (simp_all add: shortest_digits_unfold digits_found_def nearest_digits_def reads_back_def
        round_eval)

lemma repr_layout_examples:
  "repr_layout ''2005'' 4 = ''2005.0''" "repr_layout ''202'' 4 = ''2020.0''"
  by (simp_all add: repr_layout_def)

lemma float_repr_examples:
  "float_repr (Finite False (2005 * 2 ^ 42) (- 42)) = ''2005.0''"
  "float_repr (Finite False (2020 * 2 ^ 42) (- 42)) = ''2020.0''"
proof -
  have nz: "(2005 * 2 ^ 42 :: nat) \<noteq> 0" "(2020 * 2 ^ 42 :: nat) \<noteq> 0"
    by simp_all
  show "float_repr (Finite False (2005 * 2 ^ 42) (- 42)) = ''2005.0''"
    unfolding float_repr_def pyfloat.case Let_def decimal_exponent_examples
      shortest_digits_examples fst_conv snd_conv str_nat_examples
    using nz(1) by (simp add: sign_str_def repr_layout_examples)
  show "float_repr (Finite False (2020 * 2 ^ 42) (- 42)) = ''2020.0''"
    unfolding float_repr_def pyfloat.case Let_def decimal_exponent_examples
      shortest_digits_examples fst_conv snd_conv
    using nz(2) by (simp add: sign_str_def repr_layout_examples str_nat.simps digit_char_table)
qed

section \<open>Script, codec and invoker\<close>

subsection \<open>The end-to-end scenario\<close>

lemma script_lines_scenario:
  "script_lines out 1 25 (Finite False (2005 * 2 ^ 42) (- 42)) (Finite False (2020 * 2 ^ 42) (- 42)) inp
     = [''4'', out, ''1'', ''25'', ''2'', ''2005.0'', ''2'', ''2020.0'', ''3'', inp, ''0'', ''0'']"
  unfolding script_lines_def float_repr_examples str_int_examples by simp

lemma point_line_denver:
  "point_line \<lparr>name = ''Denver'', latitude = Finite False (39 * 2 ^ 47) (- 47),
       longitude = Finite True (104 * 2 ^ 46) (- 46),
       ellipsoid_height = Finite False (1600 * 2 ^ 42) (- 42)\<rparr>
     = ''39.000000000000,104.000000000000,1600.0000,Denver'' @ newline"
  unfolding point_line_def Let_def transformation_point.simps format_f_examples by simp

lemma float_value_examples:
  "float_value (Finite False (2005 * 2 ^ 42) (- 42)) = Some 2005"
  "float_value (Finite False (2020 * 2 ^ 42) (- 42)) = Some 2020"
  "float_value (Finite False (39 * 2 ^ 47) (- 47)) = Some 39"
  "float_value (Finite True (104 * 2 ^ 46) (- 46)) = Some (- 104)"
  "float_value (Finite False (1600 * 2 ^ 42) (- 42)) = Some 1600"
  "float_value (Finite False (6453 * 2 ^ 40) (- 42)) = Some (161325 / 100)"
  by (simp_all add: float_value_def pow2_def)

text \<open>
  Claim C1, amended.  For input frame 1, output frame 25, epochs 2005.0 and 2020.0 and the
  single point Denver (latitude 39.0, longitude -104.0, height 1600.0), the script builder
  produces the twelve commands of the template, in order: menu action 4, the output path,
  the frames 1 and 25, the decimal-year choice 2 with 2005.0 and again with 2020.0, the
  file-mode choice 3 with the input path, 0 to return to the menu and 0 to exit, each ended
  by a line feed; and the point encoder writes an input file holding the one line
  \<open>39.000000000000,104.000000000000,1600.0000,Denver\<close>.
\<close>

theorem end_to_end_scenario:
  "script_lines out 1 25 (Finite False (2005 * 2 ^ 42) (- 42)) (Finite False (2020 * 2 ^ 42) (- 42)) inp
     = [''4'', out, ''1'', ''25'', ''2'', ''2005.0'', ''2'', ''2020.0'', ''3'', inp, ''0'', ''0''] \<and>
   length (script_lines out 1 25 (Finite False (2005 * 2 ^ 42) (- 42))
             (Finite False (2020 * 2 ^ 42) (- 42)) inp) = 12 \<and>
   build_stdin_script out 1 25 (Finite False (2005 * 2 ^ 42) (- 42))
       (Finite False (2020 * 2 ^ 42) (- 42)) inp
     = ''4'' @ newline @ out @ newline @ ''1'' @ newline @ ''25'' @ newline @ ''2'' @ newline
       @ ''2005.0'' @ newline @ ''2'' @ newline @ ''2020.0'' @ newline @ ''3'' @ newline
       @ inp @ newline @ ''0'' @ newline @ ''0'' @ newline \<and>
   write_input_file
       [\<lparr>name = ''Denver'', latitude = Finite False (39 * 2 ^ 47) (- 47),
          longitude = Finite True (104 * 2 ^ 46) (- 46),
          ellipsoid_height = Finite False (1600 * 2 ^ 42) (- 42)\<rparr>] inp fs inp
     = Some (''39.000000000000,104.000000000000,1600.0000,Denver'' @ newline) \<and>
   float_value (Finite False (2005 * 2 ^ 42) (- 42)) = Some 2005 \<and>
   float_value (Finite False (2020 * 2 ^ 42) (- 42)) = Some 2020 \<and>
   float_value (Finite False (39 * 2 ^ 47) (- 47)) = Some 39 \<and>
   float_value (Finite True (104 * 2 ^ 46) (- 46)) = Some (- 104) \<and>
   float_value (Finite False (1600 * 2 ^ 42) (- 42)) = Some 1600"
proof -
  note lines = script_lines_scenario [of out inp]
  have count: "length (script_lines out 1 25 (Finite False (2005 * 2 ^ 42) (- 42))
             (Finite False (2020 * 2 ^ 42) (- 42)) inp) = 12"
    unfolding lines by simp
  have script: "build_stdin_script out 1 25 (Finite False (2005 * 2 ^ 42) (- 42))
       (Finite False (2020 * 2 ^ 42) (- 42)) inp
     = ''4'' @ newline @ out @ newline @ ''1'' @ newline @ ''25'' @ newline @ ''2'' @ newline
       @ ''2005.0'' @ newline @ ''2'' @ newline @ ''2020.0'' @ newline @ ''3'' @ newline
       @ inp @ newline @ ''0'' @ newline @ ''0'' @ newline"
    unfolding build_stdin_script_def lines by simp
  have written: "write_input_file
       [\<lparr>name = ''Denver'', latitude = Finite False (39 * 2 ^ 47) (- 47),
          longitude = Finite True (104 * 2 ^ 46) (- 46),
          ellipsoid_height = Finite False (1600 * 2 ^ 42) (- 42)\<rparr>] inp fs inp
     = Some (''39.000000000000,104.000000000000,1600.0000,Denver'' @ newline)"
    unfolding write_input_file_def
    by (simp only: fun_upd_same list.map concat.simps point_line_denver append_Nil2)
  show ?thesis
    by (intro conjI lines count script written float_value_examples)
qed

theorem end_to_end_scenario_counterexample:
  "length (script_lines ''/tmp/htdp_a/results.txt'' 1 25 (Finite False (2005 * 2 ^ 42) (- 42))
             (Finite False (2020 * 2 ^ 42) (- 42)) ''/tmp/htdp_a/points.txt'') \<noteq> 11"
  unfolding script_lines_scenario by simp

subsection \<open>The sign flip\<close>










subsection \<open>A well-formed data line\<close>

lemmas float_eval = py_float_def is_ascii_digit_def float_strip_def float_isspace_def
  parse_sign_def ascii_lower_def parse_decimal_def parse_exponent_def nat_of_digits_def
  digit_val_def round_eval

lemma py_float_examples:
  "py_float ''40.123456789012'' = Some (Finite False 5646874532619083 (- 47))"
  "py_float ''-105.123456789012'' = Some (Finite True 7397405637857701 (- 46))"
  "py_float ''1613.2500'' = Some (Finite False (6453 * 2 ^ 40) (- 42))"
  by (simp_all add: float_eval)

lemma nearest_double_examples:
  "double_of_decimal False 40123456789012 (- 12) = Finite False 5646874532619083 (- 47)"
  "double_of_decimal False 105123456789012 (- 12) = Finite False 7397405637857701 (- 46)"
  by (simp_all add: round_eval)

lemma data_line_strip:
  "py_strip ''40.123456789012 -105.123456789012 1613.2500 StationA''
     = ''40.123456789012 -105.123456789012 1613.2500 StationA''"
  "py_strip (''40.123456789012 -105.123456789012 1613.2500 StationA'' @ newline)
     = ''40.123456789012 -105.123456789012 1613.2500 StationA''"
  by (simp_all add: py_strip_def py_lstrip_def py_rstrip_def py_isspace_def newline_def)

lemma data_line_split:
  "py_split ''40.123456789012 -105.123456789012 1613.2500 StationA''
     = [''40.123456789012'', ''-105.123456789012'', ''1613.2500'', ''StationA'']"
  by (simp add: py_split_def py_isspace_def)

lemma data_line_parse:
  assumes "py_strip l = ''40.123456789012 -105.123456789012 1613.2500 StationA''"
  shows "parse_line l =
     Some \<lparr>result_name = ''StationA'',
           result_latitude = Finite False 5646874532619083 (- 47),
           result_longitude = Finite False 7397405637857701 (- 46),
           result_ellipsoid_height = Finite False (6453 * 2 ^ 40) (- 42)\<rparr>"
proof -
  have banner: "\<not> py_startswith ''40.123456789012 -105.123456789012 1613.2500 StationA'' ''TRANSFORMING''"
    "\<not> py_startswith ''40.123456789012 -105.123456789012 1613.2500 StationA'' ''***''"
    by (simp_all add: py_startswith_def)
  show ?thesis
    unfolding parse_line_def assms Let_def data_line_split
    using banner
    by (simp only: if_False list.size nth_Cons_0 nth_Cons_Suc One_nat_def
          numeral_2_eq_2 py_float_examples option.case fneg_def pyfloat.case
          drop_Suc_Cons drop_0 numeral_3_eq_3 py_join.simps)
       simp
qed

lemma parse_lines_single: "parse_line l = Some r \<Longrightarrow> parse_lines [l] = [r]"
  by (simp add: parse_lines_def map_filter_def)

lemma data_file_lines:
  "file_lines ''40.123456789012 -105.123456789012 1613.2500 StationA''
     = [''40.123456789012 -105.123456789012 1613.2500 StationA'']"
  "file_lines (''40.123456789012 -105.123456789012 1613.2500 StationA'' @ newline)
     = [''40.123456789012 -105.123456789012 1613.2500 StationA'' @ newline]"
  by (simp_all add: file_lines_def newline_def)

text \<open>
  Claim C8.  An output file whose only content is the data line
  \<open>40.123456789012 -105.123456789012 1613.2500 StationA\<close>, with or without its line feed,
  decodes to exactly one result: name \<open>StationA\<close>, latitude the float 40.123456789012,
  longitude the float 105.123456789012 with positive sign, height 1613.25.
\<close>

theorem decode_well_formed_line:
  "parse_output_file [path \<mapsto> ''40.123456789012 -105.123456789012 1613.2500 StationA''] path =
     Inr [\<lparr>result_name = ''StationA'',
           result_latitude = Finite False 5646874532619083 (- 47),
           result_longitude = Finite False 7397405637857701 (- 46),
           result_ellipsoid_height = Finite False (6453 * 2 ^ 40) (- 42)\<rparr>] \<and>
   parse_output_file
       [path \<mapsto> ''40.123456789012 -105.123456789012 1613.2500 StationA'' @ newline] path =
     Inr [\<lparr>result_name = ''StationA'',
           result_latitude = Finite False 5646874532619083 (- 47),
           result_longitude = Finite False 7397405637857701 (- 46),
           result_ellipsoid_height = Finite False (6453 * 2 ^ 40) (- 42)\<rparr>] \<and>
   double_of_decimal False 40123456789012 (- 12) = Finite False 5646874532619083 (- 47) \<and>
   double_of_decimal False 105123456789012 (- 12) = Finite False 7397405637857701 (- 46) \<and>
   float_value (Finite False (6453 * 2 ^ 40) (- 42)) = Some (161325 / 100)"
proof -
  have one: "parse_lines [''40.123456789012 -105.123456789012 1613.2500 StationA''] =
     [\<lparr>result_name = ''StationA'',
       result_latitude = Finite False 5646874532619083 (- 47),
       result_longitude = Finite False 7397405637857701 (- 46),
       result_ellipsoid_height = Finite False (6453 * 2 ^ 40) (- 42)\<rparr>]"
    by (rule parse_lines_single [OF data_line_parse [OF data_line_strip(1)]])
  have two: "parse_lines [''40.123456789012 -105.123456789012 1613.2500 StationA'' @ newline] =
     [\<lparr>result_name = ''StationA'',
       result_latitude = Finite False 5646874532619083 (- 47),
       result_longitude = Finite False 7397405637857701 (- 46),
       result_ellipsoid_height = Finite False (6453 * 2 ^ 40) (- 42)\<rparr>]"
    by (rule parse_lines_single [OF data_line_parse [OF data_line_strip(2)]])
  have a: "parse_output_file [path \<mapsto> ''40.123456789012 -105.123456789012 1613.2500 StationA''] path =
     Inr [\<lparr>result_name = ''StationA'',
           result_latitude = Finite False 5646874532619083 (- 47),
           result_longitude = Finite False 7397405637857701 (- 46),
           result_ellipsoid_height = Finite False (6453 * 2 ^ 40) (- 42)\<rparr>]"
    unfolding parse_output_file_def
    by (simp only: fun_upd_same option.case data_file_lines one)
  have b: "parse_output_file
       [path \<mapsto> ''40.123456789012 -105.123456789012 1613.2500 StationA'' @ newline] path =
     Inr [\<lparr>result_name = ''StationA'',
           result_latitude = Finite False 5646874532619083 (- 47),
           result_longitude = Finite False 7397405637857701 (- 46),
           result_ellipsoid_height = Finite False (6453 * 2 ^ 40) (- 42)\<rparr>]"
    unfolding parse_output_file_def
    by (simp only: fun_upd_same option.case data_file_lines two)
  show ?thesis
    by (intro conjI a b nearest_double_examples float_value_examples)
qed

subsection \<open>Timeout of the engine\<close>

lemma run_transformation_timeout:
  assumes "binary_exists env" and "binary_executable env"
    and "of_int timeout < duration (engine env (stdin_script env payload)
           (write_input_file (points payload) (input_file_path env) fs))"
  shows "run_transformation env fs payload timeout = (Inl (EngineTimeout timeout), Killed)"
  using assms
  by (simp add: run_transformation_def ensure_binary_exists_def subprocess_run_def Let_def)

lemma run_transformation_timeout_only:
  assumes "fst (run_transformation env fs payload timeout) = Inl (EngineTimeout t)"
  shows "t = timeout \<and> snd (run_transformation env fs payload timeout) = Killed \<and>
         binary_exists env \<and> binary_executable env \<and>
         of_int timeout < duration (engine env (stdin_script env payload)
           (write_input_file (points payload) (input_file_path env) fs))"
  using assms
  by (auto simp: run_transformation_def ensure_binary_exists_def subprocess_run_def Let_def
        parse_output_file_def split: if_splits sum.splits option.splits)

lemma class_timeout_iff: "class_of e = TimeoutExpired \<longleftrightarrow> (\<exists>t. e = EngineTimeout t)"
  by (cases e) (simp_all add: class_of_def)

text \<open>
  Claim C4.  When the engine runs longer than the time budget given by the caller, the
  invocation kills the child process and fails with the timeout error.  That error is the
  outcome of the call, of a class that no other error of the invoker has, and it arises only
  from an engine that exceeded the budget; the service handler catches none of it.
\<close>

theorem timeout_cancels_and_fails:
  "(binary_exists env \<longrightarrow> binary_executable env \<longrightarrow>
      of_int timeout < duration (engine env (stdin_script env payload)
        (write_input_file (points payload) (input_file_path env) fs)) \<longrightarrow>
      run_transformation env fs payload timeout = (Inl (EngineTimeout timeout), Killed)) \<and>
   (fst (run_transformation env fs payload timeout) = Inl (EngineTimeout t) \<longrightarrow>
      t = timeout \<and> snd (run_transformation env fs payload timeout) = Killed \<and>
      binary_exists env \<and> binary_executable env \<and>
      of_int timeout < duration (engine env (stdin_script env payload)
        (write_input_file (points payload) (input_file_path env) fs))) \<and>
   (class_of err = TimeoutExpired \<longleftrightarrow> (\<exists>t'. err = EngineTimeout t')) \<and>
   (fst (run_transformation env fs payload 60) = Inl (EngineTimeout 60) \<longrightarrow>
      transform env fs payload = Unhandled (EngineTimeout 60))"
proof (intro conjI impI)
  assume "fst (run_transformation env fs payload 60) = Inl (EngineTimeout 60)"
  then show "transform env fs payload = Unhandled (EngineTimeout 60)"
    by (simp add: transform_def class_of_def)
qed (use run_transformation_timeout run_transformation_timeout_only class_timeout_iff in blast)+

theorem timeout_cancels_and_fails_witness:
  "(let env = \<lparr>binary_exists = True, binary_executable = True, tmpdir = ''/tmp/htdp_a'',
               engine = (\<lambda>script fs. \<lparr>duration = 61, returncode = 0, run_stdout = [],
                                        run_stderr = [], files_after = fs\<rparr>)\<rparr>;
        payload = \<lparr>input_frame = 1, output_frame = 25,
                   input_epoch = Finite False (2005 * 2 ^ 42) (- 42),
                   output_epoch = Finite False (2020 * 2 ^ 42) (- 42),
                   points = [\<lparr>name = ''Denver'', latitude = Finite False (39 * 2 ^ 47) (- 47),
                              longitude = Finite True (104 * 2 ^ 46) (- 46),
                              ellipsoid_height = Finite False (1600 * 2 ^ 42) (- 42)\<rparr>]\<rparr>
    in binary_exists env \<and> binary_executable env \<and>
       of_int 60 < duration (engine env (stdin_script env payload)
           (write_input_file (points payload) (input_file_path env) Map.empty)) \<and>
       run_transformation env Map.empty payload 60 = (Inl (EngineTimeout 60), Killed) \<and>
       class_of (EngineTimeout 60) = TimeoutExpired \<and>
       transform env Map.empty payload = Unhandled (EngineTimeout 60))"
proof -
  define env where "env = \<lparr>binary_exists = True, binary_executable = True, tmpdir = ''/tmp/htdp_a'',
               engine = (\<lambda>script (fs :: filesystem). \<lparr>duration = 61, returncode = 0, run_stdout = [],
                                        run_stderr = [], files_after = fs\<rparr>)\<rparr>"
  define payload where "payload = \<lparr>input_frame = 1, output_frame = 25,
                   input_epoch = Finite False (2005 * 2 ^ 42) (- 42),
                   output_epoch = Finite False (2020 * 2 ^ 42) (- 42),
                   points = [\<lparr>name = ''Denver'', latitude = Finite False (39 * 2 ^ 47) (- 47),
                              longitude = Finite True (104 * 2 ^ 46) (- 46),
                              ellipsoid_height = Finite False (1600 * 2 ^ 42) (- 42)\<rparr>]\<rparr>"
  have a: "binary_exists env" and b: "binary_executable env"
    by (simp_all add: env_def)
  have c: "of_int 60 < duration (engine env (stdin_script env payload)
           (write_input_file (points payload) (input_file_path env) Map.empty))"
    by (simp add: env_def)
  note inst = timeout_cancels_and_fails
    [of env 60 payload Map.empty 60 "EngineTimeout 60"]
  from inst a b c
  have d: "run_transformation env Map.empty payload 60 = (Inl (EngineTimeout 60), Killed)"
    by blast
  from inst have e: "class_of (EngineTimeout 60) = TimeoutExpired"
    by blast
  from inst d have f: "transform env Map.empty payload = Unhandled (EngineTimeout 60)"
    by simp
  from a b c d e f show ?thesis
    unfolding env_def payload_def Let_def by blast
qed

end
